theory Spec2Isabelle
  imports Main "HOL-Library.Word"
begin

unbundle bit_operations_syntax

section \<open>The platform seen by esp32s3_reset.c\<close>

text \<open>
  The program is one C function, \<open>main\<close>, that talks to the operating system only:
  \<open>printf\<close>, \<open>perror\<close>, \<open>open\<close>, \<open>ioctl\<close> with the requests TIOCMGET and TIOCMSET,
  \<open>usleep\<close> and \<open>close\<close>. Each call is recorded as an event, in program order; what the
  operating system answers is an input of the model.
\<close>

text \<open>The C type \<open>int\<close> of the local variable \<open>status\<close>: 32 bits.\<close>

type_synonym cint = "32 word"

text \<open>
  The two masks come from the system header included through \<open>sys/ioctl.h\<close> and
  \<open>termios.h\<close>, not from the repository; the values are those of Linux, the platform
  of the device names in the usage text.
\<close>

definition TIOCM_DTR :: cint where
  "TIOCM_DTR = 0x002"

definition TIOCM_RTS :: cint where
  "TIOCM_RTS = 0x004"

text \<open>
  The events of a run. \<open>Tiocmget fd r\<close> is a call \<open>ioctl(fd, TIOCMGET, &status)\<close> with its
  answer: \<open>None\<close> when the call fails (\<open>status\<close> is left as it was), \<open>Some w\<close> when it
  stores \<open>w\<close> into \<open>status\<close>. \<open>Tiocmset fd w ok\<close> is a call
  \<open>ioctl(fd, TIOCMSET, &status)\<close> that passes the word \<open>w\<close>, and whether it succeeded.
  \<open>Open p\<close> is the call \<open>open(p, O_RDWR | O_NOCTTY)\<close>; \<open>Usleep n\<close> suspends for \<open>n\<close>
  microseconds.
\<close>

datatype event =
    Stdout string
  | Stderr string
  | Open string
  | Tiocmget int "cint option"
  | Tiocmset int cint bool
  | Usleep nat
  | Close int

text \<open>
  What the operating system answers. \<open>os_open p\<close> is the value returned by \<open>open\<close> on the
  path \<open>p\<close> (a descriptor, or a negative value on failure); \<open>os_strerror p\<close> is the text of
  the error that a failed \<open>open\<close> of \<open>p\<close> leaves in \<open>errno\<close>; \<open>os_tiocmget k\<close> and
  \<open>os_tiocmset k\<close> answer the \<open>k\<close>-th TIOCMGET and the \<open>k\<close>-th TIOCMSET call, counted
  from 0; \<open>uninit\<close> is the content of the local variable \<open>status\<close> before any
  assignment, which the source does not initialise.
\<close>

record os =
  os_open :: "string \<Rightarrow> int"
  os_strerror :: "string \<Rightarrow> string"
  os_tiocmget :: "nat \<Rightarrow> cint option"
  os_tiocmset :: "nat \<Rightarrow> bool"
  uninit :: cint

text \<open>The state threaded through the statements of \<open>main\<close>.\<close>

record state =
  status :: cint
  gets :: nat
  sets :: nat
  events :: "event list"

definition init :: "os \<Rightarrow> state" where
  "init sys = \<lparr>status = uninit sys, gets = 0, sets = 0, events = []\<rparr>"

definition emit :: "event \<Rightarrow> state \<Rightarrow> state" where
  "emit e s = s\<lparr>events := events s @ [e]\<rparr>"

definition printf :: "string \<Rightarrow> state \<Rightarrow> state" where
  "printf txt = emit (Stdout txt)"

text \<open>\<open>perror(msg)\<close> writes the message, a colon, a blank, the error text and a newline
  to standard error.\<close>

definition perror :: "os \<Rightarrow> string \<Rightarrow> string \<Rightarrow> state \<Rightarrow> state" where
  "perror sys path msg = emit (Stderr (msg @ '': '' @ os_strerror sys path @ ''\<newline>''))"

text \<open>The content of \<open>status\<close> after a TIOCMGET call answered \<open>r\<close>, when it held
  \<open>old\<close> before: a failed call stores nothing.\<close>

definition fetched :: "cint option \<Rightarrow> cint \<Rightarrow> cint" where
  "fetched r old = (case r of None \<Rightarrow> old | Some w \<Rightarrow> w)"

definition ioctl_TIOCMGET :: "os \<Rightarrow> int \<Rightarrow> state \<Rightarrow> state" where
  "ioctl_TIOCMGET sys fd s =
     (let r = os_tiocmget sys (gets s)
      in s\<lparr>status := fetched r (status s),
           gets := Suc (gets s),
           events := events s @ [Tiocmget fd r]\<rparr>)"

definition ioctl_TIOCMSET :: "os \<Rightarrow> int \<Rightarrow> state \<Rightarrow> state" where
  "ioctl_TIOCMSET sys fd s =
     s\<lparr>sets := Suc (sets s),
       events := events s @ [Tiocmset fd (status s) (os_tiocmset sys (sets s))]\<rparr>"

text \<open>\<open>status &= m\<close> and \<open>status |= m\<close>.\<close>

definition status_and :: "cint \<Rightarrow> state \<Rightarrow> state" where
  "status_and m s = s\<lparr>status := status s AND m\<rparr>"

definition status_or :: "cint \<Rightarrow> state \<Rightarrow> state" where
  "status_or m s = s\<lparr>status := status s OR m\<rparr>"

definition usleep :: "nat \<Rightarrow> state \<Rightarrow> state" where
  "usleep n = emit (Usleep n)"

definition close :: "int \<Rightarrow> state \<Rightarrow> state" where
  "close fd = emit (Close fd)"

text \<open>A block of statements, executed first to last.\<close>

definition run :: "(state \<Rightarrow> state) list \<Rightarrow> state \<Rightarrow> state" where
  "run stmts s = fold (\<lambda>stmt. stmt) stmts s"

text \<open>
  \<open>argv[i]\<close>. The C runtime ends the vector with a null pointer, \<open>argv[argc]\<close>; the only
  read that can reach it is \<open>argv[0]\<close> of an empty vector in the usage text, which the
  C library prints as \<open>(null)\<close>.
\<close>

definition arg :: "string list \<Rightarrow> nat \<Rightarrow> string" where
  "arg argv i = (if i < length argv then argv ! i else ''(null)'')"

section \<open>The program\<close>

text \<open>\<open>main\<close> of src/esp32s3_reset.c: the value returned and the events, in order.\<close>

definition main :: "os \<Rightarrow> string list \<Rightarrow> int \<times> event list" where
  "main sys argv =
     (let argc = int (length argv) in
      if argc < 2 \<or> argc > 3 then
        (- 1, events (run
           [printf (''Usage: '' @ arg argv 0 @ '' <serial_device> [bootloader]\<newline>''),
            printf (''Example: '' @ arg argv 0 @
                    '' /dev/ttyCH343USB0          # Normal boot\<newline>''),
            printf (''Example: '' @ arg argv 0 @
                    '' /dev/ttyCH343USB0 bootloader # Bootloader mode\<newline>'')]
           (init sys)))
      else
        let bootloader_mode = (argc = 3 \<and> arg argv 2 = ''bootloader'');
            fd = os_open sys (arg argv 1);
            s = emit (Open (arg argv 1)) (init sys)
        in
          if fd < 0 then
            (- 1, events (perror sys (arg argv 1) ''Failed to open serial device'' s))
          else
            (0, events (run
               [if bootloader_mode
                then printf ''Resetting ESP32S3 into bootloader mode via RTS/DTR control...\<newline>''
                else printf ''Resetting ESP32S3 into normal mode via RTS/DTR control...\<newline>'',
                printf ''Step 1: Setting up reset sequence...\<newline>'',
                ioctl_TIOCMGET sys fd,
                status_and (NOT TIOCM_DTR),
                if bootloader_mode
                then status_or TIOCM_RTS
                else status_and (NOT TIOCM_RTS),
                ioctl_TIOCMSET sys fd,
                usleep 50000,
                printf ''Step 2: Pulling EN low to reset...\<newline>'',
                ioctl_TIOCMGET sys fd,
                status_or TIOCM_DTR,
                ioctl_TIOCMSET sys fd,
                usleep 100000,
                printf ''Step 3: Releasing EN to start...\<newline>'',
                ioctl_TIOCMGET sys fd,
                status_and (NOT TIOCM_DTR),
                ioctl_TIOCMSET sys fd,
                usleep 200000,
                printf ''Reset sequence completed!\<newline>'',
                if bootloader_mode
                then printf ''ESP32S3 should now be in bootloader mode for flashing.\<newline>''
                else printf ''ESP32S3 should now be running in normal mode.\<newline>'',
                close fd]
               s)))"

section \<open>Reading a run\<close>

text \<open>The words passed to TIOCMSET, in order.\<close>

fun writes :: "event list \<Rightarrow> cint list" where
  "writes [] = []"
| "writes (Tiocmset fd w ok # es) = w # writes es"
| "writes (e # es) = writes es"

text \<open>The level of each of the two lines in a status word.\<close>

definition dtr :: "cint \<Rightarrow> bool" where
  "dtr w = (w AND TIOCM_DTR \<noteq> 0)"

definition rts :: "cint \<Rightarrow> bool" where
  "rts w = (w AND TIOCM_RTS \<noteq> 0)"

definition lines :: "cint \<Rightarrow> bool \<times> bool" where
  "lines w = (dtr w, rts w)"


text \<open>The line-control calls of a run, by request, in order.\<close>

datatype request = TIOCMGET | TIOCMSET

fun ioctls :: "event list \<Rightarrow> request list" where
  "ioctls [] = []"
| "ioctls (Tiocmget fd r # es) = TIOCMGET # ioctls es"
| "ioctls (Tiocmset fd w ok # es) = TIOCMSET # ioctls es"
| "ioctls (e # es) = ioctls es"

text \<open>Each TIOCMGET that is directly followed by a TIOCMSET: the answer of the read and
  the word written.\<close>

fun rmw_pairs :: "event list \<Rightarrow> (cint option \<times> cint) list" where
  "rmw_pairs (Tiocmget fd r # Tiocmset fd' w ok # es) = (r, w) # rmw_pairs es"
| "rmw_pairs (e # es) = rmw_pairs es"
| "rmw_pairs [] = []"

text \<open>The requested suspensions, in microseconds, in order.\<close>

fun usleeps :: "event list \<Rightarrow> nat list" where
  "usleeps [] = []"
| "usleeps (Usleep n # es) = n # usleeps es"
| "usleeps (e # es) = usleeps es"

text \<open>The suspensions that directly follow a TIOCMSET.\<close>

fun sleeps_after_writes :: "event list \<Rightarrow> nat list" where
  "sleeps_after_writes (Tiocmset fd w ok # Usleep n # es) = n # sleeps_after_writes es"
| "sleeps_after_writes (e # es) = sleeps_after_writes es"
| "sleeps_after_writes [] = []"

text \<open>
  The time of each TIOCMSET on a clock that starts at \<open>t\<close> and advances by the
  requested time at each \<open>usleep\<close> and not at all otherwise: the elapsed time when
  nothing but the suspensions takes time.
\<close>

fun write_times :: "nat \<Rightarrow> event list \<Rightarrow> nat list" where
  "write_times t [] = []"
| "write_times t (Usleep n # es) = write_times (t + n) es"
| "write_times t (Tiocmset fd w ok # es) = t # write_times t es"
| "write_times t (e # es) = write_times t es"

text \<open>The same clock at the end of the run.\<close>

fun end_time :: "nat \<Rightarrow> event list \<Rightarrow> nat" where
  "end_time t [] = t"
| "end_time t (Usleep n # es) = end_time (t + n) es"
| "end_time t (e # es) = end_time t es"

text \<open>The paths opened and the descriptors closed, in order.\<close>

fun opens :: "event list \<Rightarrow> string list" where
  "opens [] = []"
| "opens (Open p # es) = p # opens es"
| "opens (e # es) = opens es"

fun closes :: "event list \<Rightarrow> int list" where
  "closes [] = []"
| "closes (Close fd # es) = fd # closes es"
| "closes (e # es) = closes es"

text \<open>What was printed on standard output, one entry for each call of \<open>printf\<close>.\<close>

fun stdout :: "event list \<Rightarrow> string list" where
  "stdout [] = []"
| "stdout (Stdout l # es) = l # stdout es"
| "stdout (e # es) = stdout es"

text \<open>The three lines of the usage text, for the program name \<open>p\<close>.\<close>

definition usage :: "string \<Rightarrow> string list" where
  "usage p =
     [''Usage: '' @ p @ '' <serial_device> [bootloader]\<newline>'',
      ''Example: '' @ p @ '' /dev/ttyCH343USB0          # Normal boot\<newline>'',
      ''Example: '' @ p @ '' /dev/ttyCH343USB0 bootloader # Bootloader mode\<newline>'']"

subsection \<open>Sample platforms\<close>

text \<open>
  A serial adapter at \<open>/dev/ttyCH343USB0\<close>, opened as descriptor 3; every other path
  is missing. The answers of the line-control calls are given.
\<close>

definition tty :: "(nat \<Rightarrow> cint option) \<Rightarrow> (nat \<Rightarrow> bool) \<Rightarrow> os" where
  "tty answers accepted =
     \<lparr>os_open = (\<lambda>p. if p = ''/dev/ttyCH343USB0'' then 3 else - 1),
      os_strerror = (\<lambda>p. ''No such file or directory''),
      os_tiocmget = answers,
      os_tiocmset = accepted,
      uninit = 0x7FFF\<rparr>"

text \<open>An adapter whose reads return the words given, in order, and whose writes succeed.\<close>

definition answering :: "cint list \<Rightarrow> os" where
  "answering ws = tty (\<lambda>k. if k < length ws then Some (ws ! k) else None) (\<lambda>k. True)"

text \<open>An adapter on which every line-control call fails.\<close>

definition deaf :: os where
  "deaf = tty (\<lambda>k. None) (\<lambda>k. False)"

section \<open>Executing the statements\<close>

lemma run_Nil: "run [] s = s"
  by (simp add: run_def)

lemma run_Cons: "run (stmt # stmts) s = run stmts (stmt s)"
  by (simp add: run_def)

lemma emit_state:
  "emit e \<lparr>status = st, gets = g, sets = n, events = es\<rparr> =
     \<lparr>status = st, gets = g, sets = n, events = es @ [e]\<rparr>"
  by (simp add: emit_def)

lemma get_state:
  "ioctl_TIOCMGET sys fd \<lparr>status = st, gets = g, sets = n, events = es\<rparr> =
     \<lparr>status = fetched (os_tiocmget sys g) st, gets = Suc g, sets = n,
      events = es @ [Tiocmget fd (os_tiocmget sys g)]\<rparr>"
  by (simp add: ioctl_TIOCMGET_def Let_def)

lemma set_state:
  "ioctl_TIOCMSET sys fd \<lparr>status = st, gets = g, sets = n, events = es\<rparr> =
     \<lparr>status = st, gets = g, sets = Suc n,
      events = es @ [Tiocmset fd st (os_tiocmset sys n)]\<rparr>"
  by (simp add: ioctl_TIOCMSET_def)

lemma and_state:
  "status_and m \<lparr>status = st, gets = g, sets = n, events = es\<rparr> =
     \<lparr>status = st AND m, gets = g, sets = n, events = es\<rparr>"
  by (simp add: status_and_def)

lemma or_state:
  "status_or m \<lparr>status = st, gets = g, sets = n, events = es\<rparr> =
     \<lparr>status = st OR m, gets = g, sets = n, events = es\<rparr>"
  by (simp add: status_or_def)

lemmas stmt_simps = run_Nil run_Cons emit_state get_state set_state and_state or_state
  printf_def usleep_def close_def perror_def init_def

subsection \<open>The three paths through \<open>main\<close>\<close>

lemma main_usage:
  assumes "length argv < 2 \<or> 3 < length argv"
  shows "main sys argv = (- 1, map Stdout (usage (arg argv 0)))"
proof -
  have argc: "int (length argv) < 2 \<or> int (length argv) > 3"
    using assms by auto
  show ?thesis
    unfolding main_def Let_def
    by (simp only: argc if_True) (simp add: stmt_simps usage_def)
qed

lemma main_open_failed:
  assumes "length argv = 2 \<or> length argv = 3" and "os_open sys (argv ! 1) < 0"
  shows "main sys argv =
    (- 1, [Open (argv ! 1),
           Stderr (''Failed to open serial device: '' @ os_strerror sys (argv ! 1) @ ''\<newline>'')])"
proof -
  have argc: "\<not> (int (length argv) < 2 \<or> int (length argv) > 3)"
    using assms(1) by auto
  have a1: "arg argv 1 = argv ! 1"
    using assms(1) by (auto simp: arg_def)
  show ?thesis
    unfolding main_def Let_def
    by (simp only: argc a1 assms(2) if_True if_False) (simp add: stmt_simps)
qed

lemma main_normal:
  assumes n: "length argv = 2 \<or> (length argv = 3 \<and> argv ! 2 \<noteq> ''bootloader'')"
    and fd: "0 \<le> os_open sys (argv ! 1)"
  shows "\<exists>w1 w2 w3.
     w1 = (fetched (os_tiocmget sys 0) (uninit sys) AND NOT TIOCM_DTR) AND NOT TIOCM_RTS \<and>
     w2 = fetched (os_tiocmget sys 1) w1 OR TIOCM_DTR \<and>
     w3 = fetched (os_tiocmget sys 2) w2 AND NOT TIOCM_DTR \<and>
     main sys argv =
       (0, [Open (argv ! 1),
            Stdout ''Resetting ESP32S3 into normal mode via RTS/DTR control...\<newline>'',
            Stdout ''Step 1: Setting up reset sequence...\<newline>'',
            Tiocmget (os_open sys (argv ! 1)) (os_tiocmget sys 0),
            Tiocmset (os_open sys (argv ! 1)) w1 (os_tiocmset sys 0),
            Usleep 50000,
            Stdout ''Step 2: Pulling EN low to reset...\<newline>'',
            Tiocmget (os_open sys (argv ! 1)) (os_tiocmget sys 1),
            Tiocmset (os_open sys (argv ! 1)) w2 (os_tiocmset sys 1),
            Usleep 100000,
            Stdout ''Step 3: Releasing EN to start...\<newline>'',
            Tiocmget (os_open sys (argv ! 1)) (os_tiocmget sys 2),
            Tiocmset (os_open sys (argv ! 1)) w3 (os_tiocmset sys 2),
            Usleep 200000,
            Stdout ''Reset sequence completed!\<newline>'',
            Stdout ''ESP32S3 should now be running in normal mode.\<newline>'',
            Close (os_open sys (argv ! 1))])"
proof -
  have argc: "\<not> (int (length argv) < 2 \<or> int (length argv) > 3)"
    using n by auto
  have mode: "(int (length argv) = 3 \<and> arg argv 2 = ''bootloader'') = False"
    using n by (auto simp: arg_def)
  have a1: "arg argv 1 = argv ! 1"
    using n by (auto simp: arg_def)
  have open_ok: "\<not> os_open sys (argv ! 1) < 0"
    using fd by simp
  show ?thesis
    unfolding main_def Let_def
    by (simp only: argc mode a1 open_ok if_False) (simp add: stmt_simps numeral_2_eq_2)
qed

lemma main_bootloader:
  assumes n: "length argv = 3" and b: "argv ! 2 = ''bootloader''"
    and fd: "0 \<le> os_open sys (argv ! 1)"
  shows "\<exists>w1 w2 w3.
     w1 = (fetched (os_tiocmget sys 0) (uninit sys) AND NOT TIOCM_DTR) OR TIOCM_RTS \<and>
     w2 = fetched (os_tiocmget sys 1) w1 OR TIOCM_DTR \<and>
     w3 = fetched (os_tiocmget sys 2) w2 AND NOT TIOCM_DTR \<and>
     main sys argv =
       (0, [Open (argv ! 1),
            Stdout ''Resetting ESP32S3 into bootloader mode via RTS/DTR control...\<newline>'',
            Stdout ''Step 1: Setting up reset sequence...\<newline>'',
            Tiocmget (os_open sys (argv ! 1)) (os_tiocmget sys 0),
            Tiocmset (os_open sys (argv ! 1)) w1 (os_tiocmset sys 0),
            Usleep 50000,
            Stdout ''Step 2: Pulling EN low to reset...\<newline>'',
            Tiocmget (os_open sys (argv ! 1)) (os_tiocmget sys 1),
            Tiocmset (os_open sys (argv ! 1)) w2 (os_tiocmset sys 1),
            Usleep 100000,
            Stdout ''Step 3: Releasing EN to start...\<newline>'',
            Tiocmget (os_open sys (argv ! 1)) (os_tiocmget sys 2),
            Tiocmset (os_open sys (argv ! 1)) w3 (os_tiocmset sys 2),
            Usleep 200000,
            Stdout ''Reset sequence completed!\<newline>'',
            Stdout ''ESP32S3 should now be in bootloader mode for flashing.\<newline>'',
            Close (os_open sys (argv ! 1))])"
proof -
  have argc: "\<not> (int (length argv) < 2 \<or> int (length argv) > 3)"
    using n by auto
  have mode: "(int (length argv) = 3 \<and> arg argv 2 = ''bootloader'') = True"
    using n b by (auto simp: arg_def)
  have a1: "arg argv 1 = argv ! 1"
    using n by (auto simp: arg_def)
  have open_ok: "\<not> os_open sys (argv ! 1) < 0"
    using fd by simp
  show ?thesis
    unfolding main_def Let_def
    by (simp only: argc mode a1 open_ok if_False if_True) (simp add: stmt_simps numeral_2_eq_2)
qed

text \<open>The two modes at once.\<close>

lemma main_opened:
  assumes n: "length argv = 2 \<or> length argv = 3" and fd: "0 \<le> os_open sys (argv ! 1)"
  shows "\<exists>w1 w2 w3 l1 l2.
     w1 = (if length argv = 3 \<and> argv ! 2 = ''bootloader''
           then (fetched (os_tiocmget sys 0) (uninit sys) AND NOT TIOCM_DTR) OR TIOCM_RTS
           else (fetched (os_tiocmget sys 0) (uninit sys) AND NOT TIOCM_DTR) AND
                NOT TIOCM_RTS) \<and>
     w2 = fetched (os_tiocmget sys 1) w1 OR TIOCM_DTR \<and>
     w3 = fetched (os_tiocmget sys 2) w2 AND NOT TIOCM_DTR \<and>
     main sys argv =
       (0, [Open (argv ! 1),
            Stdout l1,
            Stdout ''Step 1: Setting up reset sequence...\<newline>'',
            Tiocmget (os_open sys (argv ! 1)) (os_tiocmget sys 0),
            Tiocmset (os_open sys (argv ! 1)) w1 (os_tiocmset sys 0),
            Usleep 50000,
            Stdout ''Step 2: Pulling EN low to reset...\<newline>'',
            Tiocmget (os_open sys (argv ! 1)) (os_tiocmget sys 1),
            Tiocmset (os_open sys (argv ! 1)) w2 (os_tiocmset sys 1),
            Usleep 100000,
            Stdout ''Step 3: Releasing EN to start...\<newline>'',
            Tiocmget (os_open sys (argv ! 1)) (os_tiocmget sys 2),
            Tiocmset (os_open sys (argv ! 1)) w3 (os_tiocmset sys 2),
            Usleep 200000,
            Stdout ''Reset sequence completed!\<newline>'',
            Stdout l2,
            Close (os_open sys (argv ! 1))])"
proof (cases "length argv = 3 \<and> argv ! 2 = ''bootloader''")
  case True
  then have c: "(length argv = 3 \<and> argv ! 2 = ''bootloader'') = True"
    by simp
  show ?thesis
    unfolding c if_True using main_bootloader [of argv sys] True fd by blast
next
  case False
  then have c: "(length argv = 3 \<and> argv ! 2 = ''bootloader'') = False"
    by simp
  show ?thesis
    unfolding c if_False using main_normal [of argv sys] False n fd by blast
qed

subsection \<open>The two line bits\<close>

lemma dtr_bit: "dtr w = bit w (Suc 0)"
  by (simp add: dtr_def TIOCM_DTR_def bit_iff_and_push_bit_not_eq_0)

lemma rts_bit: "rts w = bit w 2"
  by (simp add: rts_def TIOCM_RTS_def bit_iff_and_push_bit_not_eq_0)

lemma bit_DTR: "bit TIOCM_DTR (Suc 0) = True" "bit TIOCM_DTR 2 = False"
  by (simp_all add: TIOCM_DTR_def bit_2_iff)

lemma bit_RTS: "bit TIOCM_RTS (Suc 0) = False" "bit TIOCM_RTS 2 = True"
proof -
  have e: "TIOCM_RTS = 2 ^ 2"
    by (simp add: TIOCM_RTS_def)
  show "bit TIOCM_RTS (Suc 0) = False"
    unfolding e by (simp only: bit_exp_iff) simp
  show "bit TIOCM_RTS 2 = True"
    unfolding e by (simp only: bit_exp_iff) simp
qed

lemma dtr_simps:
  "dtr (w AND NOT TIOCM_DTR) = False"
  "dtr (w OR TIOCM_DTR) = True"
  "dtr (w AND NOT TIOCM_RTS) = dtr w"
  "dtr (w OR TIOCM_RTS) = dtr w"
  by (simp_all add: dtr_bit bit_and_iff bit_or_iff bit_not_iff bit_DTR bit_RTS)

lemma rts_simps:
  "rts (w AND NOT TIOCM_RTS) = False"
  "rts (w OR TIOCM_RTS) = True"
  "rts (w AND NOT TIOCM_DTR) = rts w"
  "rts (w OR TIOCM_DTR) = rts w"
  by (simp_all add: rts_bit bit_and_iff bit_or_iff bit_not_iff bit_DTR bit_RTS)

lemma other_bits_set: "(v OR m) AND NOT m = v AND NOT m" for v m :: cint
  by (rule bit_eqI) (auto simp: bit_and_iff bit_or_iff bit_not_iff)

lemma other_bits_cleared: "(v AND NOT m) AND NOT m = v AND NOT m" for v m :: cint
  by (rule bit_eqI) (auto simp: bit_and_iff bit_not_iff)

subsection \<open>Sample runs\<close>

lemma sample_normal:
  "main (answering [6, 0, 2]) [''esp32s3_reset'', ''/dev/ttyCH343USB0''] =
     (0, [Open ''/dev/ttyCH343USB0'',
          Stdout ''Resetting ESP32S3 into normal mode via RTS/DTR control...\<newline>'',
          Stdout ''Step 1: Setting up reset sequence...\<newline>'',
          Tiocmget 3 (Some 6), Tiocmset 3 0 True, Usleep 50000,
          Stdout ''Step 2: Pulling EN low to reset...\<newline>'',
          Tiocmget 3 (Some 0), Tiocmset 3 2 True, Usleep 100000,
          Stdout ''Step 3: Releasing EN to start...\<newline>'',
          Tiocmget 3 (Some 2), Tiocmset 3 0 True, Usleep 200000,
          Stdout ''Reset sequence completed!\<newline>'',
          Stdout ''ESP32S3 should now be running in normal mode.\<newline>'',
          Close 3])"
  using main_normal [of "[''esp32s3_reset'', ''/dev/ttyCH343USB0'']" "answering [6, 0, 2]"]
  by (simp add: answering_def tty_def fetched_def TIOCM_DTR_def TIOCM_RTS_def)


lemma sample_deaf:
  "main deaf [''esp32s3_reset'', ''/dev/ttyCH343USB0'', ''bootloader''] =
     (0, [Open ''/dev/ttyCH343USB0'',
          Stdout ''Resetting ESP32S3 into bootloader mode via RTS/DTR control...\<newline>'',
          Stdout ''Step 1: Setting up reset sequence...\<newline>'',
          Tiocmget 3 None, Tiocmset 3 0x7FFD False, Usleep 50000,
          Stdout ''Step 2: Pulling EN low to reset...\<newline>'',
          Tiocmget 3 None, Tiocmset 3 0x7FFF False, Usleep 100000,
          Stdout ''Step 3: Releasing EN to start...\<newline>'',
          Tiocmget 3 None, Tiocmset 3 0x7FFD False, Usleep 200000,
          Stdout ''Reset sequence completed!\<newline>'',
          Stdout ''ESP32S3 should now be in bootloader mode for flashing.\<newline>'',
          Close 3])"
  using main_bootloader
    [of "[''esp32s3_reset'', ''/dev/ttyCH343USB0'', ''bootloader'']" deaf]
  by (simp add: deaf_def tty_def fetched_def TIOCM_DTR_def TIOCM_RTS_def)

lemma sample_missing:
  "main deaf [''esp32s3_reset'', ''/dev/ttyUSB9''] =
     (- 1, [Open ''/dev/ttyUSB9'',
            Stderr ''Failed to open serial device: No such file or directory\<newline>''])"
  using main_open_failed [of "[''esp32s3_reset'', ''/dev/ttyUSB9'']" deaf]
  by (simp add: deaf_def tty_def)

lemma sample_usage:
  "main deaf [''esp32s3_reset''] = (- 1, map Stdout (usage ''esp32s3_reset''))"
  using main_usage [of "[''esp32s3_reset'']" deaf]
  by (simp add: arg_def)

section \<open>The reset sequences\<close>





section \<open>The error paths\<close>




text \<open>
  C4. When the argument count is accepted and the device path cannot be opened, the
  program attempts the open, writes one line on standard error, made of its message
  and the reason reported by the operating system, and returns -1; it makes no
  line-control call and does nothing else.
\<close>

theorem open_failure:
  assumes "length argv = 2 \<or> length argv = 3"
    and "os_open sys (argv ! 1) < 0"
  shows "fst (main sys argv) = - 1 \<and>
         snd (main sys argv) =
           [Open (argv ! 1),
            Stderr (''Failed to open serial device: '' @ os_strerror sys (argv ! 1) @
                    ''\<newline>'')] \<and>
         ioctls (snd (main sys argv)) = []"
  unfolding main_open_failed [OF assms] by simp

theorem open_failure_witness:
  "(length [''esp32s3_reset'', ''/dev/ttyUSB9''] = 2 \<or>
    length [''esp32s3_reset'', ''/dev/ttyUSB9''] = 3) \<and>
   os_open deaf ([''esp32s3_reset'', ''/dev/ttyUSB9''] ! 1) < 0 \<and>
   fst (main deaf [''esp32s3_reset'', ''/dev/ttyUSB9'']) = - 1 \<and>
   snd (main deaf [''esp32s3_reset'', ''/dev/ttyUSB9'']) =
     [Open ([''esp32s3_reset'', ''/dev/ttyUSB9''] ! 1),
      Stderr (''Failed to open serial device: '' @
              os_strerror deaf ([''esp32s3_reset'', ''/dev/ttyUSB9''] ! 1) @ ''\<newline>'')] \<and>
   ioctls (snd (main deaf [''esp32s3_reset'', ''/dev/ttyUSB9''])) = []"
proof -
  have h1: "length [''esp32s3_reset'', ''/dev/ttyUSB9''] = 2 \<or>
    length [''esp32s3_reset'', ''/dev/ttyUSB9''] = 3"
    by simp
  have h2: "os_open deaf ([''esp32s3_reset'', ''/dev/ttyUSB9''] ! 1) < 0"
    by (simp add: deaf_def tty_def)
  show ?thesis
    by (intro conjI h1 h2 open_failure [OF h1 h2, THEN conjunct1]
        open_failure [OF h1 h2, THEN conjunct2, THEN conjunct1]
        open_failure [OF h1 h2, THEN conjunct2, THEN conjunct2])
qed

text \<open>
  C7. The program returns 0 or -1 and nothing else: -1 exactly when the argument count
  is refused or the device cannot be opened, and 0 exactly when the run made its three
  line writes and closed the device it had opened.
\<close>

theorem exit_codes:
  "(fst (main sys argv) = 0 \<or> fst (main sys argv) = - 1) \<and>
   (fst (main sys argv) = - 1) =
     (length argv < 2 \<or> 3 < length argv \<or> os_open sys (argv ! 1) < 0) \<and>
   (fst (main sys argv) = 0) =
     (length (writes (snd (main sys argv))) = 3 \<and>
      closes (snd (main sys argv)) = [os_open sys (argv ! 1)])"
proof -
  consider (usage) "length argv < 2 \<or> 3 < length argv"
    | (failed) "length argv = 2 \<or> length argv = 3" "os_open sys (argv ! 1) < 0"
    | (opened) "length argv = 2 \<or> length argv = 3" "0 \<le> os_open sys (argv ! 1)"
    by linarith
  then show ?thesis
  proof cases
    case usage
    then show ?thesis
      unfolding main_usage [OF usage] by (auto simp: usage_def)
  next
    case failed
    then show ?thesis
      unfolding main_open_failed [OF failed] by auto
  next
    case opened
    from main_opened [OF opened] obtain w1 w2 w3 l1 l2 where
      m: "main sys argv =
       (0, [Open (argv ! 1),
            Stdout l1,
            Stdout ''Step 1: Setting up reset sequence...\<newline>'',
            Tiocmget (os_open sys (argv ! 1)) (os_tiocmget sys 0),
            Tiocmset (os_open sys (argv ! 1)) w1 (os_tiocmset sys 0),
            Usleep 50000,
            Stdout ''Step 2: Pulling EN low to reset...\<newline>'',
            Tiocmget (os_open sys (argv ! 1)) (os_tiocmget sys 1),
            Tiocmset (os_open sys (argv ! 1)) w2 (os_tiocmset sys 1),
            Usleep 100000,
            Stdout ''Step 3: Releasing EN to start...\<newline>'',
            Tiocmget (os_open sys (argv ! 1)) (os_tiocmget sys 2),
            Tiocmset (os_open sys (argv ! 1)) w3 (os_tiocmset sys 2),
            Usleep 200000,
            Stdout ''Reset sequence completed!\<newline>'',
            Stdout l2,
            Close (os_open sys (argv ! 1))])"
      by blast
    from opened show ?thesis
      unfolding m by auto
  qed
qed

theorem exit_codes_witness:
  "fst (main (answering [6, 0, 2]) [''esp32s3_reset'', ''/dev/ttyCH343USB0'']) = 0 \<and>
   fst (main deaf [''esp32s3_reset'', ''/dev/ttyUSB9'']) = - 1 \<and>
   fst (main deaf [''esp32s3_reset'']) = - 1"
proof -
  have a: "length (writes (snd (main (answering [6, 0, 2])
              [''esp32s3_reset'', ''/dev/ttyCH343USB0'']))) = 3 \<and>
      closes (snd (main (answering [6, 0, 2]) [''esp32s3_reset'', ''/dev/ttyCH343USB0''])) =
        [os_open (answering [6, 0, 2]) ([''esp32s3_reset'', ''/dev/ttyCH343USB0''] ! 1)]"
    by (simp only: sample_normal) (simp add: answering_def tty_def)
  have b: "length [''esp32s3_reset'', ''/dev/ttyUSB9''] < 2 \<or>
      3 < length [''esp32s3_reset'', ''/dev/ttyUSB9''] \<or>
      os_open deaf ([''esp32s3_reset'', ''/dev/ttyUSB9''] ! 1) < 0"
    by (simp add: deaf_def tty_def)
  have c: "length [''esp32s3_reset''] < 2 \<or> 3 < length [''esp32s3_reset''] \<or>
      os_open deaf ([''esp32s3_reset''] ! 1) < 0"
    by simp
  from a exit_codes [of "answering [6, 0, 2]" "[''esp32s3_reset'', ''/dev/ttyCH343USB0'']"]
  have 1: "fst (main (answering [6, 0, 2]) [''esp32s3_reset'', ''/dev/ttyCH343USB0'']) = 0"
    by blast
  from b exit_codes [of deaf "[''esp32s3_reset'', ''/dev/ttyUSB9'']"]
  have 2: "fst (main deaf [''esp32s3_reset'', ''/dev/ttyUSB9'']) = - 1"
    by blast
  from c exit_codes [of deaf "[''esp32s3_reset'']"]
  have 3: "fst (main deaf [''esp32s3_reset'']) = - 1"
    by blast
  from 1 2 3 show ?thesis
    by blast
qed

section \<open>The steps of an opened run\<close>

text \<open>
  C5, as amended. In a run that opened the device, the line-control calls are three
  reads, each directly followed by a write of the word computed from it, and nothing
  else. When the read of step 1 returns a word, the word written is that word with the
  DTR bit cleared and the RTS bit set (bootloader mode) or cleared (normal mode): step 1
  sets both named lines in one read-modify-write. When the read of step 2 or of step 3
  returns a word, the word written is that word with the DTR bit set (step 2) or cleared
  (step 3); every other bit, RTS among them, is written as read.
\<close>

theorem read_modify_write:
  assumes "length argv = 2 \<or> length argv = 3"
    and "0 \<le> os_open sys (argv ! 1)"
  shows "let es = snd (main sys argv) in
     ioctls es = [TIOCMGET, TIOCMSET, TIOCMGET, TIOCMSET, TIOCMGET, TIOCMSET] \<and>
     map fst (rmw_pairs es) = [os_tiocmget sys 0, os_tiocmget sys 1, os_tiocmget sys 2] \<and>
     map snd (rmw_pairs es) = writes es \<and>
     (\<forall>v. os_tiocmget sys 0 = Some v \<longrightarrow>
        writes es ! 0 =
          (if length argv = 3 \<and> argv ! 2 = ''bootloader''
           then (v AND NOT TIOCM_DTR) OR TIOCM_RTS
           else (v AND NOT TIOCM_DTR) AND NOT TIOCM_RTS)) \<and>
     (\<forall>v. os_tiocmget sys 1 = Some v \<longrightarrow>
        writes es ! 1 = v OR TIOCM_DTR \<and>
        writes es ! 1 AND NOT TIOCM_DTR = v AND NOT TIOCM_DTR \<and>
        rts (writes es ! 1) = rts v) \<and>
     (\<forall>v. os_tiocmget sys 2 = Some v \<longrightarrow>
        writes es ! 2 = v AND NOT TIOCM_DTR \<and>
        writes es ! 2 AND NOT TIOCM_DTR = v AND NOT TIOCM_DTR \<and>
        rts (writes es ! 2) = rts v)"
proof -
  from main_opened [OF assms] obtain w1 w2 w3 l1 l2 where
    w1: "w1 = (if length argv = 3 \<and> argv ! 2 = ''bootloader''
           then (fetched (os_tiocmget sys 0) (uninit sys) AND NOT TIOCM_DTR) OR TIOCM_RTS
           else (fetched (os_tiocmget sys 0) (uninit sys) AND NOT TIOCM_DTR) AND
                NOT TIOCM_RTS)"
    and w2: "w2 = fetched (os_tiocmget sys 1) w1 OR TIOCM_DTR"
    and w3: "w3 = fetched (os_tiocmget sys 2) w2 AND NOT TIOCM_DTR"
    and m: "main sys argv =
       (0, [Open (argv ! 1),
            Stdout l1,
            Stdout ''Step 1: Setting up reset sequence...\<newline>'',
            Tiocmget (os_open sys (argv ! 1)) (os_tiocmget sys 0),
            Tiocmset (os_open sys (argv ! 1)) w1 (os_tiocmset sys 0),
            Usleep 50000,
            Stdout ''Step 2: Pulling EN low to reset...\<newline>'',
            Tiocmget (os_open sys (argv ! 1)) (os_tiocmget sys 1),
            Tiocmset (os_open sys (argv ! 1)) w2 (os_tiocmset sys 1),
            Usleep 100000,
            Stdout ''Step 3: Releasing EN to start...\<newline>'',
            Tiocmget (os_open sys (argv ! 1)) (os_tiocmget sys 2),
            Tiocmset (os_open sys (argv ! 1)) w3 (os_tiocmset sys 2),
            Usleep 200000,
            Stdout ''Reset sequence completed!\<newline>'',
            Stdout l2,
            Close (os_open sys (argv ! 1))])"
    by blast
  have ws: "writes (snd (main sys argv)) = [w1, w2, w3]"
    unfolding m by simp
  have calls: "ioctls (snd (main sys argv)) =
      [TIOCMGET, TIOCMSET, TIOCMGET, TIOCMSET, TIOCMGET, TIOCMSET]"
    unfolding m by simp
  have pairs: "rmw_pairs (snd (main sys argv)) =
      [(os_tiocmget sys 0, w1), (os_tiocmget sys 1, w2), (os_tiocmget sys 2, w3)]"
    unfolding m by simp
  have s1: "w1 = (if length argv = 3 \<and> argv ! 2 = ''bootloader''
           then (v AND NOT TIOCM_DTR) OR TIOCM_RTS
           else (v AND NOT TIOCM_DTR) AND NOT TIOCM_RTS)"
    if "os_tiocmget sys 0 = Some v" for v
    using w1 that by (simp add: fetched_def)
  have s2: "w2 = v OR TIOCM_DTR \<and> w2 AND NOT TIOCM_DTR = v AND NOT TIOCM_DTR \<and>
      rts w2 = rts v"
    if "os_tiocmget sys 1 = Some v" for v
    using w2 that by (simp add: fetched_def other_bits_set rts_simps)
  have s3: "w3 = v AND NOT TIOCM_DTR \<and> w3 AND NOT TIOCM_DTR = v AND NOT TIOCM_DTR \<and>
      rts w3 = rts v"
    if "os_tiocmget sys 2 = Some v" for v
    using w3 that by (simp add: fetched_def other_bits_cleared rts_simps)
  show ?thesis
    unfolding Let_def ws calls pairs using s1 s2 s3
    by (simp add: other_bits_set other_bits_cleared rts_simps)
qed

theorem read_modify_write_witness:
  "(length [''esp32s3_reset'', ''/dev/ttyCH343USB0''] = 2 \<or>
    length [''esp32s3_reset'', ''/dev/ttyCH343USB0''] = 3) \<and>
   0 \<le> os_open (answering [6, 0, 2]) ([''esp32s3_reset'', ''/dev/ttyCH343USB0''] ! 1) \<and>
   os_tiocmget (answering [6, 0, 2]) 0 = Some 6 \<and>
   os_tiocmget (answering [6, 0, 2]) 1 = Some 0 \<and>
   os_tiocmget (answering [6, 0, 2]) 2 = Some 2 \<and>
   writes (snd (main (answering [6, 0, 2]) [''esp32s3_reset'', ''/dev/ttyCH343USB0''])) ! 0 =
     (6 AND NOT TIOCM_DTR) AND NOT TIOCM_RTS \<and>
   writes (snd (main (answering [6, 0, 2]) [''esp32s3_reset'', ''/dev/ttyCH343USB0''])) ! 1 =
     0 OR TIOCM_DTR \<and>
   writes (snd (main (answering [6, 0, 2]) [''esp32s3_reset'', ''/dev/ttyCH343USB0''])) ! 2 =
     2 AND NOT TIOCM_DTR"
proof -
  have h1: "length [''esp32s3_reset'', ''/dev/ttyCH343USB0''] = 2 \<or>
    length [''esp32s3_reset'', ''/dev/ttyCH343USB0''] = 3"
    by simp
  have h2: "0 \<le> os_open (answering [6, 0, 2])
      ([''esp32s3_reset'', ''/dev/ttyCH343USB0''] ! 1)"
    by (simp add: answering_def tty_def)
  have r1: "os_tiocmget (answering [6, 0, 2]) 0 = Some 6"
    by (simp add: answering_def tty_def)
  have r2: "os_tiocmget (answering [6, 0, 2]) 1 = Some 0"
    by (simp add: answering_def tty_def)
  have r3: "os_tiocmget (answering [6, 0, 2]) 2 = Some 2"
    by (simp add: answering_def tty_def)
  have mode: "\<not> (length [''esp32s3_reset'', ''/dev/ttyCH343USB0''] = 3 \<and>
      [''esp32s3_reset'', ''/dev/ttyCH343USB0''] ! 2 = ''bootloader'')"
    by simp
  note rmw = read_modify_write [OF h1 h2, unfolded Let_def]
  from rmw r1 mode
  have w1: "writes (snd (main (answering [6, 0, 2])
      [''esp32s3_reset'', ''/dev/ttyCH343USB0''])) ! 0 =
      (6 AND NOT TIOCM_DTR) AND NOT TIOCM_RTS"
    by presburger
  from rmw r2
  have w2: "writes (snd (main (answering [6, 0, 2])
      [''esp32s3_reset'', ''/dev/ttyCH343USB0''])) ! 1 = 0 OR TIOCM_DTR"
    by blast
  from rmw r3
  have w3: "writes (snd (main (answering [6, 0, 2])
      [''esp32s3_reset'', ''/dev/ttyCH343USB0''])) ! 2 = 2 AND NOT TIOCM_DTR"
    by blast
  show ?thesis
    by (intro conjI h1 h2 r1 r2 r3 w1 w2 w3)
qed

text \<open>
  C5 as stated asks that each read-modify-write change one named line. The first one
  of the run below reads a word with both lines asserted and writes a word with both
  lines released.
\<close>

theorem rmw_two_lines_counterexample:
  "rmw_pairs (snd (main (answering [6, 0, 2])
      [''esp32s3_reset'', ''/dev/ttyCH343USB0''])) ! 0 = (Some 6, 0) \<and>
   dtr 6 \<and> \<not> dtr 0 \<and> rts 6 \<and> \<not> rts 0"
  by (simp add: sample_normal dtr_def rts_def TIOCM_DTR_def TIOCM_RTS_def)

text \<open>
  C6, as amended. A run that opened the device suspends three times, for 50000, 100000
  and 200000 microseconds, each directly after one of the three line writes. On a
  clock that only the suspensions advance, the writes happen at 0, 50000 and 150000
  microseconds, so 150 ms lie between the first and the third, and the run ends at
  350000: the 200 ms follow the third write.
\<close>

theorem sleep_schedule:
  assumes "length argv = 2 \<or> length argv = 3"
    and "0 \<le> os_open sys (argv ! 1)"
  shows "let es = snd (main sys argv) in
     usleeps es = [50000, 100000, 200000] \<and>
     sleeps_after_writes es = [50000, 100000, 200000] \<and>
     write_times 0 es = [0, 50000, 150000] \<and>
     end_time 0 es = 350000"
proof -
  from main_opened [OF assms] obtain w1 w2 w3 l1 l2 where
    m: "main sys argv =
       (0, [Open (argv ! 1),
            Stdout l1,
            Stdout ''Step 1: Setting up reset sequence...\<newline>'',
            Tiocmget (os_open sys (argv ! 1)) (os_tiocmget sys 0),
            Tiocmset (os_open sys (argv ! 1)) w1 (os_tiocmset sys 0),
            Usleep 50000,
            Stdout ''Step 2: Pulling EN low to reset...\<newline>'',
            Tiocmget (os_open sys (argv ! 1)) (os_tiocmget sys 1),
            Tiocmset (os_open sys (argv ! 1)) w2 (os_tiocmset sys 1),
            Usleep 100000,
            Stdout ''Step 3: Releasing EN to start...\<newline>'',
            Tiocmget (os_open sys (argv ! 1)) (os_tiocmget sys 2),
            Tiocmset (os_open sys (argv ! 1)) w3 (os_tiocmset sys 2),
            Usleep 200000,
            Stdout ''Reset sequence completed!\<newline>'',
            Stdout l2,
            Close (os_open sys (argv ! 1))])"
    by blast
  show ?thesis
    unfolding m Let_def by simp
qed

theorem sleep_schedule_witness:
  "(length [''esp32s3_reset'', ''/dev/ttyCH343USB0'', ''bootloader''] = 2 \<or>
    length [''esp32s3_reset'', ''/dev/ttyCH343USB0'', ''bootloader''] = 3) \<and>
   0 \<le> os_open deaf ([''esp32s3_reset'', ''/dev/ttyCH343USB0'', ''bootloader''] ! 1) \<and>
   (let es = snd (main deaf [''esp32s3_reset'', ''/dev/ttyCH343USB0'', ''bootloader'']) in
     usleeps es = [50000, 100000, 200000] \<and>
     sleeps_after_writes es = [50000, 100000, 200000] \<and>
     write_times 0 es = [0, 50000, 150000] \<and>
     end_time 0 es = 350000)"
proof -
  have h1: "length [''esp32s3_reset'', ''/dev/ttyCH343USB0'', ''bootloader''] = 2 \<or>
    length [''esp32s3_reset'', ''/dev/ttyCH343USB0'', ''bootloader''] = 3"
    by simp
  have h2: "0 \<le> os_open deaf
      ([''esp32s3_reset'', ''/dev/ttyCH343USB0'', ''bootloader''] ! 1)"
    by (simp add: deaf_def tty_def)
  show ?thesis
    by (intro conjI h1 h2 sleep_schedule [OF h1 h2])
qed

text \<open>
  C6 as stated puts at least 350 ms between the first and the third line write. In the
  run below the third write comes 150000 microseconds after the first.
\<close>

theorem elapsed_between_writes_counterexample:
  "\<not> 350000 \<le>
     write_times 0 (snd (main (answering [6, 0, 2])
       [''esp32s3_reset'', ''/dev/ttyCH343USB0''])) ! 2 -
     write_times 0 (snd (main (answering [6, 0, 2])
       [''esp32s3_reset'', ''/dev/ttyCH343USB0''])) ! 0"
  by (simp add: sample_normal)



text \<open>
  C9. A run that opened the device closes the descriptor it got exactly once, as its
  last action; a run that failed to open the device, or that never tried, closes
  nothing.
\<close>

theorem close_once:
  "let es = snd (main sys argv) in
     ((length argv = 2 \<or> length argv = 3) \<and> 0 \<le> os_open sys (argv ! 1) \<longrightarrow>
        opens es = [argv ! 1] \<and>
        closes es = [os_open sys (argv ! 1)] \<and>
        last es = Close (os_open sys (argv ! 1))) \<and>
     ((length argv = 2 \<or> length argv = 3) \<and> os_open sys (argv ! 1) < 0 \<longrightarrow>
        opens es = [argv ! 1] \<and> closes es = []) \<and>
     (length argv < 2 \<or> 3 < length argv \<longrightarrow>
        opens es = [] \<and> closes es = [])"
proof -
  consider (usage) "length argv < 2 \<or> 3 < length argv"
    | (failed) "length argv = 2 \<or> length argv = 3" "os_open sys (argv ! 1) < 0"
    | (opened) "length argv = 2 \<or> length argv = 3" "0 \<le> os_open sys (argv ! 1)"
    by linarith
  then show ?thesis
  proof cases
    case usage
    then show ?thesis
      unfolding main_usage [OF usage] Let_def by (auto simp: usage_def)
  next
    case failed
    then show ?thesis
      unfolding main_open_failed [OF failed] Let_def by auto
  next
    case opened
    from main_opened [OF opened] obtain w1 w2 w3 l1 l2 where
      m: "main sys argv =
       (0, [Open (argv ! 1),
            Stdout l1,
            Stdout ''Step 1: Setting up reset sequence...\<newline>'',
            Tiocmget (os_open sys (argv ! 1)) (os_tiocmget sys 0),
            Tiocmset (os_open sys (argv ! 1)) w1 (os_tiocmset sys 0),
            Usleep 50000,
            Stdout ''Step 2: Pulling EN low to reset...\<newline>'',
            Tiocmget (os_open sys (argv ! 1)) (os_tiocmget sys 1),
            Tiocmset (os_open sys (argv ! 1)) w2 (os_tiocmset sys 1),
            Usleep 100000,
            Stdout ''Step 3: Releasing EN to start...\<newline>'',
            Tiocmget (os_open sys (argv ! 1)) (os_tiocmget sys 2),
            Tiocmset (os_open sys (argv ! 1)) w3 (os_tiocmset sys 2),
            Usleep 200000,
            Stdout ''Reset sequence completed!\<newline>'',
            Stdout l2,
            Close (os_open sys (argv ! 1))])"
      by blast
    from opened show ?thesis
      unfolding m Let_def by auto
  qed
qed

theorem close_once_witness:
  "closes (snd (main (answering [6, 0, 2]) [''esp32s3_reset'', ''/dev/ttyCH343USB0''])) =
     [os_open (answering [6, 0, 2]) ([''esp32s3_reset'', ''/dev/ttyCH343USB0''] ! 1)] \<and>
   closes (snd (main deaf [''esp32s3_reset'', ''/dev/ttyUSB9''])) = [] \<and>
   closes (snd (main deaf [''esp32s3_reset''])) = []"
proof -
  have a: "(length [''esp32s3_reset'', ''/dev/ttyCH343USB0''] = 2 \<or>
      length [''esp32s3_reset'', ''/dev/ttyCH343USB0''] = 3) \<and>
      0 \<le> os_open (answering [6, 0, 2]) ([''esp32s3_reset'', ''/dev/ttyCH343USB0''] ! 1)"
    by (simp add: answering_def tty_def)
  have b: "(length [''esp32s3_reset'', ''/dev/ttyUSB9''] = 2 \<or>
      length [''esp32s3_reset'', ''/dev/ttyUSB9''] = 3) \<and>
      os_open deaf ([''esp32s3_reset'', ''/dev/ttyUSB9''] ! 1) < 0"
    by (simp add: deaf_def tty_def)
  have c: "length [''esp32s3_reset''] < 2 \<or> 3 < length [''esp32s3_reset'']"
    by simp
  from a close_once [of "answering [6, 0, 2]" "[''esp32s3_reset'', ''/dev/ttyCH343USB0'']"]
  have 1: "closes (snd (main (answering [6, 0, 2])
      [''esp32s3_reset'', ''/dev/ttyCH343USB0''])) =
     [os_open (answering [6, 0, 2]) ([''esp32s3_reset'', ''/dev/ttyCH343USB0''] ! 1)]"
    unfolding Let_def by blast
  from b close_once [of deaf "[''esp32s3_reset'', ''/dev/ttyUSB9'']"]
  have 2: "closes (snd (main deaf [''esp32s3_reset'', ''/dev/ttyUSB9''])) = []"
    unfolding Let_def by blast
  from c close_once [of deaf "[''esp32s3_reset'']"]
  have 3: "closes (snd (main deaf [''esp32s3_reset''])) = []"
    unfolding Let_def by blast
  from 1 2 3 show ?thesis
    by blast
qed

text \<open>
  C10. With two arguments after the program name, the second of them any string but
  \<open>bootloader\<close>, the run is the run with the first argument alone: the same value
  returned and the same events. It prints no line of the usage text and opens the
  device named by the first argument. When the open fails it reports that and returns
  -1; otherwise it is the normal-mode reset, event by event: the normal-mode lines on
  standard output, step 1 writing the word read with DTR and RTS both cleared, step 2
  setting DTR, step 3 clearing it, the three suspensions, the close, and 0 returned.
\<close>

theorem other_second_argument:
  assumes "x \<noteq> ''bootloader''"
  shows "main sys [prog, dev, x] = main sys [prog, dev] \<and>
         opens (snd (main sys [prog, dev, x])) = [dev] \<and>
         snd (main sys [prog, dev, x]) \<noteq> map Stdout (usage prog) \<and>
         set (stdout (snd (main sys [prog, dev, x]))) \<inter> set (usage prog) = {} \<and>
         (os_open sys dev < 0 \<longrightarrow>
            main sys [prog, dev, x] =
              (- 1, [Open dev,
                     Stderr (''Failed to open serial device: '' @ os_strerror sys dev @
                             ''\<newline>'')])) \<and>
         (0 \<le> os_open sys dev \<longrightarrow>
            (let fd = os_open sys dev;
                 w1 = (fetched (os_tiocmget sys 0) (uninit sys) AND NOT TIOCM_DTR) AND
                      NOT TIOCM_RTS;
                 w2 = fetched (os_tiocmget sys 1) w1 OR TIOCM_DTR;
                 w3 = fetched (os_tiocmget sys 2) w2 AND NOT TIOCM_DTR
             in main sys [prog, dev, x] =
                  (0, [Open dev,
                       Stdout ''Resetting ESP32S3 into normal mode via RTS/DTR control...\<newline>'',
                       Stdout ''Step 1: Setting up reset sequence...\<newline>'',
                       Tiocmget fd (os_tiocmget sys 0),
                       Tiocmset fd w1 (os_tiocmset sys 0),
                       Usleep 50000,
                       Stdout ''Step 2: Pulling EN low to reset...\<newline>'',
                       Tiocmget fd (os_tiocmget sys 1),
                       Tiocmset fd w2 (os_tiocmset sys 1),
                       Usleep 100000,
                       Stdout ''Step 3: Releasing EN to start...\<newline>'',
                       Tiocmget fd (os_tiocmget sys 2),
                       Tiocmset fd w3 (os_tiocmset sys 2),
                       Usleep 200000,
                       Stdout ''Reset sequence completed!\<newline>'',
                       Stdout ''ESP32S3 should now be running in normal mode.\<newline>'',
                       Close fd]) \<and>
                lines w1 = (False, False) \<and> dtr w2 \<and> \<not> dtr w3))"
proof (cases "os_open sys dev < 0")
  case True
  have m3: "main sys [prog, dev, x] =
      (- 1, [Open dev,
             Stderr (''Failed to open serial device: '' @ os_strerror sys dev @ ''\<newline>'')])"
    using main_open_failed [of "[prog, dev, x]" sys] True by simp
  have m2: "main sys [prog, dev] =
      (- 1, [Open dev,
             Stderr (''Failed to open serial device: '' @ os_strerror sys dev @ ''\<newline>'')])"
    using main_open_failed [of "[prog, dev]" sys] True by simp
  have no: "\<not> 0 \<le> os_open sys dev"
    using True by simp
  show ?thesis
    unfolding m3 m2 using True no by (simp add: usage_def)
next
  case False
  then have fd: "0 \<le> os_open sys dev"
    by simp
  from main_normal [of "[prog, dev, x]" sys] assms fd
  obtain w1 w2 w3 where
    w1: "w1 = (fetched (os_tiocmget sys 0) (uninit sys) AND NOT TIOCM_DTR) AND NOT TIOCM_RTS"
    and w2: "w2 = fetched (os_tiocmget sys 1) w1 OR TIOCM_DTR"
    and w3: "w3 = fetched (os_tiocmget sys 2) w2 AND NOT TIOCM_DTR"
    and m3: "main sys [prog, dev, x] =
       (0, [Open dev,
            Stdout ''Resetting ESP32S3 into normal mode via RTS/DTR control...\<newline>'',
            Stdout ''Step 1: Setting up reset sequence...\<newline>'',
            Tiocmget (os_open sys dev) (os_tiocmget sys 0),
            Tiocmset (os_open sys dev) w1 (os_tiocmset sys 0),
            Usleep 50000,
            Stdout ''Step 2: Pulling EN low to reset...\<newline>'',
            Tiocmget (os_open sys dev) (os_tiocmget sys 1),
            Tiocmset (os_open sys dev) w2 (os_tiocmset sys 1),
            Usleep 100000,
            Stdout ''Step 3: Releasing EN to start...\<newline>'',
            Tiocmget (os_open sys dev) (os_tiocmget sys 2),
            Tiocmset (os_open sys dev) w3 (os_tiocmset sys 2),
            Usleep 200000,
            Stdout ''Reset sequence completed!\<newline>'',
            Stdout ''ESP32S3 should now be running in normal mode.\<newline>'',
            Close (os_open sys dev)])"
    by auto
  from main_normal [of "[prog, dev]" sys] fd
  have m2: "main sys [prog, dev] =
       (0, [Open dev,
            Stdout ''Resetting ESP32S3 into normal mode via RTS/DTR control...\<newline>'',
            Stdout ''Step 1: Setting up reset sequence...\<newline>'',
            Tiocmget (os_open sys dev) (os_tiocmget sys 0),
            Tiocmset (os_open sys dev) w1 (os_tiocmset sys 0),
            Usleep 50000,
            Stdout ''Step 2: Pulling EN low to reset...\<newline>'',
            Tiocmget (os_open sys dev) (os_tiocmget sys 1),
            Tiocmset (os_open sys dev) w2 (os_tiocmset sys 1),
            Usleep 100000,
            Stdout ''Step 3: Releasing EN to start...\<newline>'',
            Tiocmget (os_open sys dev) (os_tiocmget sys 2),
            Tiocmset (os_open sys dev) w3 (os_tiocmset sys 2),
            Usleep 200000,
            Stdout ''Reset sequence completed!\<newline>'',
            Stdout ''ESP32S3 should now be running in normal mode.\<newline>'',
            Close (os_open sys dev)])"
    unfolding w1 w2 w3 by auto
  have same: "main sys [prog, dev, x] = main sys [prog, dev]"
    unfolding m3 m2 by (rule refl)
  have opened: "opens (snd (main sys [prog, dev, x])) = [dev]"
    unfolding m3 by simp
  have differs: "snd (main sys [prog, dev, x]) \<noteq> map Stdout (usage prog)"
    unfolding m3 by (simp add: usage_def)
  have silent: "set (stdout (snd (main sys [prog, dev, x]))) \<inter> set (usage prog) = {}"
    unfolding m3 by (simp add: usage_def)
  have failed: "os_open sys dev < 0 \<longrightarrow>
      main sys [prog, dev, x] =
        (- 1, [Open dev,
               Stderr (''Failed to open serial device: '' @ os_strerror sys dev @
                       ''\<newline>'')])"
    using False by simp
  have l1: "lines w1 = (False, False)"
    by (simp add: lines_def w1 dtr_simps rts_simps)
  have l2: "dtr w2"
    by (simp add: w2 dtr_simps)
  have l3: "\<not> dtr w3"
    by (simp add: w3 dtr_simps)
  have normal: "0 \<le> os_open sys dev \<longrightarrow>
            (let fd = os_open sys dev;
                 w1 = (fetched (os_tiocmget sys 0) (uninit sys) AND NOT TIOCM_DTR) AND
                      NOT TIOCM_RTS;
                 w2 = fetched (os_tiocmget sys 1) w1 OR TIOCM_DTR;
                 w3 = fetched (os_tiocmget sys 2) w2 AND NOT TIOCM_DTR
             in main sys [prog, dev, x] =
                  (0, [Open dev,
                       Stdout ''Resetting ESP32S3 into normal mode via RTS/DTR control...\<newline>'',
                       Stdout ''Step 1: Setting up reset sequence...\<newline>'',
                       Tiocmget fd (os_tiocmget sys 0),
                       Tiocmset fd w1 (os_tiocmset sys 0),
                       Usleep 50000,
                       Stdout ''Step 2: Pulling EN low to reset...\<newline>'',
                       Tiocmget fd (os_tiocmget sys 1),
                       Tiocmset fd w2 (os_tiocmset sys 1),
                       Usleep 100000,
                       Stdout ''Step 3: Releasing EN to start...\<newline>'',
                       Tiocmget fd (os_tiocmget sys 2),
                       Tiocmset fd w3 (os_tiocmset sys 2),
                       Usleep 200000,
                       Stdout ''Reset sequence completed!\<newline>'',
                       Stdout ''ESP32S3 should now be running in normal mode.\<newline>'',
                       Close fd]) \<and>
                lines w1 = (False, False) \<and> dtr w2 \<and> \<not> dtr w3)"
    unfolding Let_def using m3 l1 l2 l3 unfolding w1 w2 w3 by (intro impI conjI)
  show ?thesis
    by (intro conjI same opened differs silent failed normal)
qed

theorem other_second_argument_witness:
  "''flash'' \<noteq> ''bootloader'' \<and>
   0 \<le> os_open (answering [6, 0, 2]) ''/dev/ttyCH343USB0'' \<and>
   os_open deaf ''/dev/ttyUSB9'' < 0 \<and>
   main (answering [6, 0, 2]) [''esp32s3_reset'', ''/dev/ttyCH343USB0'', ''flash''] =
     main (answering [6, 0, 2]) [''esp32s3_reset'', ''/dev/ttyCH343USB0''] \<and>
   set (stdout (snd (main (answering [6, 0, 2])
     [''esp32s3_reset'', ''/dev/ttyCH343USB0'', ''flash'']))) \<inter>
     set (usage ''esp32s3_reset'') = {} \<and>
   main (answering [6, 0, 2]) [''esp32s3_reset'', ''/dev/ttyCH343USB0'', ''flash''] =
     (0, [Open ''/dev/ttyCH343USB0'',
          Stdout ''Resetting ESP32S3 into normal mode via RTS/DTR control...\<newline>'',
          Stdout ''Step 1: Setting up reset sequence...\<newline>'',
          Tiocmget 3 (Some 6), Tiocmset 3 0 True, Usleep 50000,
          Stdout ''Step 2: Pulling EN low to reset...\<newline>'',
          Tiocmget 3 (Some 0), Tiocmset 3 2 True, Usleep 100000,
          Stdout ''Step 3: Releasing EN to start...\<newline>'',
          Tiocmget 3 (Some 2), Tiocmset 3 0 True, Usleep 200000,
          Stdout ''Reset sequence completed!\<newline>'',
          Stdout ''ESP32S3 should now be running in normal mode.\<newline>'',
          Close 3]) \<and>
   main deaf [''esp32s3_reset'', ''/dev/ttyUSB9'', ''flash''] =
     (- 1, [Open ''/dev/ttyUSB9'',
            Stderr ''Failed to open serial device: No such file or directory\<newline>''])"
proof -
  have h: "''flash'' \<noteq> ''bootloader''"
    by simp
  have ok: "0 \<le> os_open (answering [6, 0, 2]) ''/dev/ttyCH343USB0''"
    by (simp add: answering_def tty_def)
  have bad: "os_open deaf ''/dev/ttyUSB9'' < 0"
    by (simp add: deaf_def tty_def)
  note a = other_second_argument
    [OF h, of "answering [6, 0, 2]" "''esp32s3_reset''" "''/dev/ttyCH343USB0''"]
  note b = other_second_argument [OF h, of deaf "''esp32s3_reset''" "''/dev/ttyUSB9''"]
  note same = a [THEN conjunct1]
  note silent = a [THEN conjunct2, THEN conjunct2, THEN conjunct2, THEN conjunct1]
  note normal = a [THEN conjunct2, THEN conjunct2, THEN conjunct2, THEN conjunct2,
    THEN conjunct2, THEN mp, OF ok, unfolded Let_def, THEN conjunct1]
  note failed = b [THEN conjunct2, THEN conjunct2, THEN conjunct2, THEN conjunct2,
    THEN conjunct1, THEN mp, OF bad]
  have run: "main (answering [6, 0, 2]) [''esp32s3_reset'', ''/dev/ttyCH343USB0'', ''flash''] =
     (0, [Open ''/dev/ttyCH343USB0'',
          Stdout ''Resetting ESP32S3 into normal mode via RTS/DTR control...\<newline>'',
          Stdout ''Step 1: Setting up reset sequence...\<newline>'',
          Tiocmget 3 (Some 6), Tiocmset 3 0 True, Usleep 50000,
          Stdout ''Step 2: Pulling EN low to reset...\<newline>'',
          Tiocmget 3 (Some 0), Tiocmset 3 2 True, Usleep 100000,
          Stdout ''Step 3: Releasing EN to start...\<newline>'',
          Tiocmget 3 (Some 2), Tiocmset 3 0 True, Usleep 200000,
          Stdout ''Reset sequence completed!\<newline>'',
          Stdout ''ESP32S3 should now be running in normal mode.\<newline>'',
          Close 3])"
    unfolding normal
    by (simp add: answering_def tty_def fetched_def TIOCM_DTR_def TIOCM_RTS_def)
  have miss: "main deaf [''esp32s3_reset'', ''/dev/ttyUSB9'', ''flash''] =
     (- 1, [Open ''/dev/ttyUSB9'',
            Stderr ''Failed to open serial device: No such file or directory\<newline>''])"
    unfolding failed by (simp add: deaf_def tty_def)
  show ?thesis
    by (intro conjI h ok bad same silent run miss)
qed

end
